theory Spec2Isabelle
  imports Main "HOL-Library.AList"
begin

section \<open>Data model of \<open>scripts/sync_mirror.py\<close>\<close>

text \<open>
  The script handles upstream and fork pull requests alike as Python dictionaries decoded
  from the JSON that \<open>gh pr list\<close> prints. One record holds the union of the keys the two
  listings ask for: the upstream listing carries \<open>baseRefName\<close> and \<open>author\<close>, the
  fork listing carries \<open>id\<close>. The body may be JSON \<open>null\<close>, hence an option.
  A label object is reduced to the only key the script reads, its name.
\<close>

datatype label = Label (label_name: string)

record pr =
  number :: int
  title :: string
  baseRefName :: string
  headRefName :: string
  headRefOid :: string
  body :: "string option"
  author_login :: string
  labels :: "label list"
  isDraft :: bool
  node_id :: string

definition UPSTREAM_REPO :: string where
  "UPSTREAM_REPO = ''facebook/react''"

definition FORK_REPO :: string where
  "FORK_REPO = ''greptileai/react-mirror''"

subsection \<open>Formatting an integer, as an f-string does\<close>

definition digit_char :: "nat \<Rightarrow> char" where
  "digit_char d = ''0123456789'' ! d"

function str_nat :: "nat \<Rightarrow> string" where
  "str_nat n = (if n < 10 then [digit_char n] else str_nat (n div 10) @ [digit_char (n mod 10)])"
  by pat_completeness auto
termination
  by (relation "measure (\<lambda>n. n)") auto

declare str_nat.simps [simp del]

definition str_int :: "int \<Rightarrow> string" where
  "str_int i = (if i < 0 then CHR ''-'' # str_nat (nat (- i)) else str_nat (nat i))"

subsection \<open>Branch Namer\<close>

text \<open>
  \<open>get_branch_name\<close>: \<open>count = sum(1 for p in all_prs if p["headRefName"] == head_ref)\<close>,
  and the name is \<open>f"{head_ref}-{pr['number']}"\<close> when \<open>count > 1\<close>.
\<close>

definition get_branch_name :: "pr \<Rightarrow> pr list \<Rightarrow> string" where
  "get_branch_name p all_prs =
     (let head_ref = headRefName p;
          count = sum_list (map (\<lambda>q. 1::nat) (filter (\<lambda>q. headRefName q = head_ref) all_prs))
      in if count > 1 then head_ref @ ''-'' @ str_int (number p) else head_ref)"

subsection \<open>Labels and the mirror body\<close>

definition get_label_names :: "pr \<Rightarrow> string list" where
  "get_label_names p = map label_name (labels p)"

definition nl :: char where
  "nl = CHR 0x0A"

text \<open>
  \<open>build_pr_body\<close> is one f-string over five lines; the second line ends with a space
  after the author, the fourth is the separator \<open>---\<close>.
\<close>

definition build_pr_body :: "int \<Rightarrow> string \<Rightarrow> string \<Rightarrow> string" where
  "build_pr_body pr_num author body_text =
     ''**Mirror of ['' @ UPSTREAM_REPO @ ''#'' @ str_int pr_num
       @ ''](https://github.com/'' @ UPSTREAM_REPO @ ''/pull/'' @ str_int pr_num @ '')**'' @ [nl]
     @ ''**Original author:** '' @ author @ '' '' @ [nl]
     @ [nl]
     @ ''---'' @ [nl]
     @ [nl]
     @ body_text"

section \<open>External commands\<close>

text \<open>
  Every effect of the script is a \<open>git\<close> or \<open>gh\<close> process started by \<open>run_cmd\<close>. A
  command is recorded with the parts of its argument vector that vary; the set of labels
  of an \<open>--add-label\<close>/\<open>--remove-label\<close> call stays a set, since \<open>",".join\<close> over a
  Python set has no fixed order.
\<close>

datatype call =
    GitLsRemote string
      \<comment> \<open>\<open>git ls-remote --heads origin <branch>\<close>\<close>
  | GitFetch string string bool
      \<comment> \<open>\<open>git fetch upstream <src>:<dst> [--force]\<close>\<close>
  | GitPush string bool
      \<comment> \<open>\<open>git push origin <branch> [--force]\<close>\<close>
  | GhPrEdit int string string
      \<comment> \<open>\<open>gh pr edit <n> --repo FORK_REPO --title <t> --body <b>\<close>\<close>
  | GhAddLabel int "string set"
      \<comment> \<open>\<open>gh pr edit <n> --repo FORK_REPO --add-label <names>\<close>\<close>
  | GhRemoveLabel int "string set"
      \<comment> \<open>\<open>gh pr edit <n> --repo FORK_REPO --remove-label <names>\<close>\<close>
  | GhPrReady int
      \<comment> \<open>\<open>gh pr ready <n> --repo FORK_REPO\<close>\<close>
  | GhConvertToDraft string
      \<comment> \<open>\<open>gh api graphql\<close> with the \<open>convertPullRequestToDraft\<close> mutation on a node id\<close>
  | GhPrCreate string string string string "string list" bool
      \<comment> \<open>\<open>gh pr create --repo FORK_REPO --head --base --title --body [--label] [--draft]\<close>\<close>
  | GhPrClose int
      \<comment> \<open>\<open>gh pr close <n> --repo FORK_REPO --delete-branch --comment ...\<close>\<close>

text \<open>
  What a process gives back: whether it exited with status 0, and its standard output
  after \<open>strip()\<close>. The platform and the remotes are outside the program, so the answer
  to a command is a parameter: a function of the commands run so far and of the command.
  The trace of commands is the state every function threads through.
\<close>

record outcome =
  exit_ok :: bool
  stdout :: string

type_synonym trace = "call list"
type_synonym world = "trace \<Rightarrow> call \<Rightarrow> outcome"

datatype error = CalledProcessError

text \<open>
  \<open>run_cmd(cmd)\<close> with the default \<open>check=True\<close>: a non-zero exit raises
  \<open>CalledProcessError\<close>, which \<open>run_cmd\<close> prints and raises again.
\<close>

definition run_cmd :: "world \<Rightarrow> call \<Rightarrow> trace \<Rightarrow> (error + string) \<times> trace" where
  "run_cmd ex cmd tr =
     (let r = ex tr cmd
      in (if exit_ok r then Inr (stdout r) else Inl CalledProcessError, tr @ [cmd]))"

text \<open>
  \<open>run_cmd(cmd, check=False)\<close>: \<open>subprocess.run\<close> raises nothing for a non-zero exit, so
  the stripped output is returned whatever the exit status.
\<close>

definition run_cmd_nocheck :: "world \<Rightarrow> call \<Rightarrow> trace \<Rightarrow> string \<times> trace" where
  "run_cmd_nocheck ex cmd tr = (stdout (ex tr cmd), tr @ [cmd])"

definition run_gh :: "world \<Rightarrow> call \<Rightarrow> trace \<Rightarrow> (error + string) \<times> trace" where
  "run_gh ex args tr = run_cmd ex args tr"

definition run_gh_nocheck :: "world \<Rightarrow> call \<Rightarrow> trace \<Rightarrow> string \<times> trace" where
  "run_gh_nocheck ex args tr = run_cmd_nocheck ex args tr"

subsection \<open>Base branch\<close>

definition branch_exists_on_origin :: "world \<Rightarrow> string \<Rightarrow> trace \<Rightarrow> bool \<times> trace" where
  "branch_exists_on_origin ex branch tr =
     (case run_cmd_nocheck ex (GitLsRemote branch) tr of
        (result, tr1) \<Rightarrow> (result \<noteq> [], tr1))"

definition ensure_base_branch_exists :: "world \<Rightarrow> string \<Rightarrow> trace \<Rightarrow> bool \<times> trace" where
  "ensure_base_branch_exists ex base_ref tr =
     (case branch_exists_on_origin ex base_ref tr of
        (True, tr1) \<Rightarrow> (True, tr1)
      | (False, tr1) \<Rightarrow>
          (case run_cmd ex (GitFetch base_ref base_ref False) tr1 of
             (Inl e, tr2) \<Rightarrow> (False, tr2)
           | (Inr out, tr2) \<Rightarrow>
               (case run_cmd ex (GitPush base_ref False) tr2 of
                  (Inl e, tr3) \<Rightarrow> (False, tr3)
                | (Inr out', tr3) \<Rightarrow> (True, tr3))))"

subsection \<open>Metadata\<close>

definition mark_pr_ready :: "world \<Rightarrow> int \<Rightarrow> trace \<Rightarrow> bool \<times> trace" where
  "mark_pr_ready ex fork_pr_num tr =
     (case run_gh ex (GhPrReady fork_pr_num) tr of
        (Inl e, tr1) \<Rightarrow> (False, tr1)
      | (Inr out, tr1) \<Rightarrow> (True, tr1))"

definition convert_pr_to_draft :: "world \<Rightarrow> string \<Rightarrow> trace \<Rightarrow> bool \<times> trace" where
  "convert_pr_to_draft ex pr_node_id tr =
     (case run_gh ex (GhConvertToDraft pr_node_id) tr of
        (Inl e, tr1) \<Rightarrow> (False, tr1)
      | (Inr out, tr1) \<Rightarrow> (True, tr1))"

text \<open>The two deltas \<open>sync_labels\<close> computes, named after its local variables.\<close>

definition to_add :: "string list \<Rightarrow> string list \<Rightarrow> string set" where
  "to_add upstream_labels fork_labels = set upstream_labels - set fork_labels"

definition to_remove :: "string list \<Rightarrow> string list \<Rightarrow> string set" where
  "to_remove upstream_labels fork_labels = set fork_labels - set upstream_labels"

definition sync_labels :: "world \<Rightarrow> int \<Rightarrow> string list \<Rightarrow> string list \<Rightarrow> trace \<Rightarrow> trace" where
  "sync_labels ex fork_pr_num upstream_labels fork_labels tr =
     (let tr1 = (if to_add upstream_labels fork_labels \<noteq> {}
                 then snd (run_gh_nocheck ex
                        (GhAddLabel fork_pr_num (to_add upstream_labels fork_labels)) tr)
                 else tr)
      in if to_remove upstream_labels fork_labels \<noteq> {}
         then snd (run_gh_nocheck ex
                (GhRemoveLabel fork_pr_num (to_remove upstream_labels fork_labels)) tr1)
         else tr1)"

text \<open>
  \<open>update_pr_metadata\<close>: the title/body edit is checked, and its failure ends the
  function with \<open>False\<close>; the label calls are unchecked; the two draft helpers catch their
  own failures.
\<close>

definition update_pr_metadata ::
  "world \<Rightarrow> int \<Rightarrow> string \<Rightarrow> string \<Rightarrow> string list \<Rightarrow> string list \<Rightarrow> bool \<Rightarrow> bool \<Rightarrow> string
     \<Rightarrow> trace \<Rightarrow> bool \<times> trace" where
  "update_pr_metadata ex fork_pr_num new_title new_body upstream_labels fork_labels
       is_draft fork_is_draft pr_node_id tr =
     (case run_gh ex (GhPrEdit fork_pr_num new_title new_body) tr of
        (Inl e, tr1) \<Rightarrow> (False, tr1)
      | (Inr out, tr1) \<Rightarrow>
          (let tr2 = sync_labels ex fork_pr_num upstream_labels fork_labels tr1;
               tr3 = (if is_draft \<and> \<not> fork_is_draft
                      then snd (convert_pr_to_draft ex pr_node_id tr2)
                      else if \<not> is_draft \<and> fork_is_draft
                      then snd (mark_pr_ready ex fork_pr_num tr2)
                      else tr2)
           in (True, tr3)))"

section \<open>Diff Engine and Action Executor: \<open>create_or_update_pr\<close>\<close>

text \<open>\<open>pr.get("body") or ""\<close>: a missing or null body, like an empty one, gives \<open>""\<close>.\<close>

definition body_or_empty :: "pr \<Rightarrow> string" where
  "body_or_empty p = (case body p of None \<Rightarrow> [] | Some b \<Rightarrow> b)"

text \<open>
  The local \<open>metadata_changed\<close>, for an upstream PR and the fork PR found under its branch
  name. A fork body of \<open>null\<close> differs from every string.
\<close>

definition metadata_changed :: "pr \<Rightarrow> pr \<Rightarrow> bool" where
  "metadata_changed p existing =
     (title existing \<noteq> title p
      \<or> body existing \<noteq> Some (build_pr_body (number p) (author_login p) (body_or_empty p))
      \<or> set (get_label_names existing) \<noteq> set (get_label_names p)
      \<or> isDraft existing \<noteq> isDraft p)"

definition pull_ref :: "int \<Rightarrow> string" where
  "pull_ref pr_num = ''pull/'' @ str_int pr_num @ ''/head''"

text \<open>
  The fork PRs are a dictionary from head branch name to PR, kept as the list of its
  items in insertion order; \<open>fork_prs.get\<close> is \<open>map_of\<close>. The result is one of the
  strings \<open>created\<close>, \<open>updated\<close>, \<open>unchanged\<close>, \<open>failed\<close>.
\<close>

definition create_or_update_pr ::
  "world \<Rightarrow> pr \<Rightarrow> string \<Rightarrow> (string \<times> pr) list \<Rightarrow> trace \<Rightarrow> string \<times> trace" where
  "create_or_update_pr ex p branch_name fork_prs tr =
     (let pr_num = number p;
          base = baseRefName p;
          upstream_sha = headRefOid p;
          upstream_labels = get_label_names p;
          is_draft = isDraft p;
          expected_body = build_pr_body pr_num (author_login p) (body_or_empty p)
      in case map_of fork_prs branch_name of
           Some existing \<Rightarrow>
             (case (if headRefOid existing \<noteq> upstream_sha
                    then (case run_cmd ex (GitFetch (pull_ref pr_num) branch_name True) tr of
                            (Inl e, tr1) \<Rightarrow> (Inl e, tr1)
                          | (Inr out, tr1) \<Rightarrow>
                              (case run_cmd ex (GitPush branch_name True) tr1 of
                                 (Inl e, tr2) \<Rightarrow> (Inl e, tr2)
                               | (Inr out', tr2) \<Rightarrow> (Inr True, tr2)))
                    else (Inr False, tr)) of
                (Inl e, tr3) \<Rightarrow> (''failed'', tr3)
              | (Inr branch_updated, tr3) \<Rightarrow>
                  (let tr4 = (if metadata_changed p existing
                              then snd (update_pr_metadata ex (number existing) (title p)
                                     expected_body upstream_labels (get_label_names existing)
                                     is_draft (isDraft existing) (node_id existing) tr3)
                              else tr3)
                   in (if branch_updated \<or> metadata_changed p existing
                       then ''updated'' else ''unchanged'', tr4)))
         | None \<Rightarrow>
             (case ensure_base_branch_exists ex base tr of
                (False, tr1) \<Rightarrow> (''failed'', tr1)
              | (True, tr1) \<Rightarrow>
                  (case run_cmd ex (GitFetch (pull_ref pr_num) branch_name False) tr1 of
                     (Inl e, tr2) \<Rightarrow> (''failed'', tr2)
                   | (Inr out, tr2) \<Rightarrow>
                       (case run_cmd ex (GitPush branch_name False) tr2 of
                          (Inl e, tr3) \<Rightarrow> (''failed'', tr3)
                        | (Inr out', tr3) \<Rightarrow>
                            (case run_gh ex (GhPrCreate branch_name base (title p) expected_body
                                               upstream_labels is_draft) tr3 of
                               (Inl e, tr4) \<Rightarrow> (''failed'', tr4)
                             | (Inr url, tr4) \<Rightarrow> (''created'', tr4))))))"

section \<open>Reconciler\<close>

text \<open>
  \<open>get_fork_prs\<close> indexes the fork listing by head branch; in a dict comprehension a
  repeated key keeps its first position and takes the last value, as \<open>AList.update\<close> does.
\<close>

definition get_fork_prs :: "pr list \<Rightarrow> (string \<times> pr) list" where
  "get_fork_prs prs = foldl (\<lambda>d p. AList.update (headRefName p) p d) [] prs"

text \<open>
  \<open>close_stale_prs\<close>: the close is run with \<open>check=False\<close>, so nothing is raised inside
  the \<open>try\<close> for a failed close and \<open>closed\<close> is incremented for every stale PR.
\<close>

fun close_stale_loop ::
  "world \<Rightarrow> string set \<Rightarrow> (string \<times> pr) list \<Rightarrow> nat \<Rightarrow> trace \<Rightarrow> nat \<times> trace" where
  "close_stale_loop ex upstream_branches [] closed tr = (closed, tr)"
| "close_stale_loop ex upstream_branches ((branch_name, p) # rest) closed tr =
     (if branch_name \<notin> upstream_branches
      then (case run_gh_nocheck ex (GhPrClose (number p)) tr of
              (out, tr1) \<Rightarrow> close_stale_loop ex upstream_branches rest (closed + 1) tr1)
      else close_stale_loop ex upstream_branches rest closed tr)"

definition close_stale_prs ::
  "world \<Rightarrow> string set \<Rightarrow> (string \<times> pr) list \<Rightarrow> trace \<Rightarrow> nat \<times> trace" where
  "close_stale_prs ex upstream_branches fork_prs tr =
     close_stale_loop ex upstream_branches fork_prs 0 tr"

text \<open>The local variables of \<open>sync_prs\<close>.\<close>

record sync_state =
  upstream_branches :: "string set"
  created :: nat
  updated :: nat
  unchanged :: nat
  failed :: nat
  closed :: nat

definition tally :: "string \<Rightarrow> sync_state \<Rightarrow> sync_state" where
  "tally result st =
     (if result = ''created'' then st\<lparr>created := created st + 1\<rparr>
      else if result = ''updated'' then st\<lparr>updated := updated st + 1\<rparr>
      else if result = ''unchanged'' then st\<lparr>unchanged := unchanged st + 1\<rparr>
      else st\<lparr>failed := failed st + 1\<rparr>)"

text \<open>The loop over \<open>upstream_prs_sorted\<close>; \<open>all_prs\<close> is the unsorted listing.\<close>

fun process_prs ::
  "world \<Rightarrow> pr list \<Rightarrow> (string \<times> pr) list \<Rightarrow> pr list \<Rightarrow> sync_state \<Rightarrow> trace
     \<Rightarrow> sync_state \<times> trace" where
  "process_prs ex all_prs fork_prs [] st tr = (st, tr)"
| "process_prs ex all_prs fork_prs (p # rest) st tr =
     (let branch_name = get_branch_name p all_prs;
          st1 = st\<lparr>upstream_branches := insert branch_name (upstream_branches st)\<rparr>
      in case create_or_update_pr ex p branch_name fork_prs tr of
           (result, tr1) \<Rightarrow> process_prs ex all_prs fork_prs rest (tally result st1) tr1)"

text \<open>
  \<open>sync_prs\<close> after the two listings have been fetched: \<open>upstream_prs\<close> and \<open>fork_prs\<close>
  are what \<open>get_upstream_prs()\<close> and \<open>get_fork_prs()\<close> returned, \<open>tr\<close> the commands run
  until then. \<open>sync_run\<close> gives the final locals, \<open>sync_prs\<close> the returned flag and
  \<open>main_exit\<close> the exit status of \<open>main\<close>. \<open>time.sleep\<close> and printing are left out.
\<close>

definition sync_run ::
  "world \<Rightarrow> pr list \<Rightarrow> (string \<times> pr) list \<Rightarrow> trace \<Rightarrow> sync_state \<times> trace" where
  "sync_run ex upstream_prs fork_prs tr =
     (let upstream_prs_sorted = sort_key number upstream_prs
      in case process_prs ex upstream_prs fork_prs upstream_prs_sorted
                \<lparr>upstream_branches = {}, created = 0, updated = 0, unchanged = 0,
                 failed = 0, closed = 0\<rparr> tr of
           (st, tr1) \<Rightarrow>
             (case close_stale_prs ex (upstream_branches st) fork_prs tr1 of
                (n, tr2) \<Rightarrow> (st\<lparr>closed := n\<rparr>, tr2)))"

definition sync_prs :: "world \<Rightarrow> pr list \<Rightarrow> (string \<times> pr) list \<Rightarrow> trace \<Rightarrow> bool" where
  "sync_prs ex upstream_prs fork_prs tr = (failed (fst (sync_run ex upstream_prs fork_prs tr)) = 0)"

definition main_exit :: "world \<Rightarrow> pr list \<Rightarrow> (string \<times> pr) list \<Rightarrow> trace \<Rightarrow> int" where
  "main_exit ex upstream_prs fork_prs tr = (if sync_prs ex upstream_prs fork_prs tr then 0 else 1)"

text \<open>Which commands close a fork PR.\<close>

fun is_close :: "call \<Rightarrow> bool" where
  "is_close (GhPrClose n) = True"
| "is_close c = False"

section \<open>Inputs and worlds used in the examples\<close>

text \<open>An upstream PR and the fork PR under its branch name with nothing to reconcile.\<close>

definition in_sync :: "pr \<Rightarrow> pr \<Rightarrow> bool" where
  "in_sync p e =
     (headRefOid e = headRefOid p \<and> title e = title p
      \<and> body e = Some (build_pr_body (number p) (author_login p) (body_or_empty p))
      \<and> set (get_label_names e) = set (get_label_names p)
      \<and> isDraft e = isDraft p)"

definition pr0 :: pr where
  "pr0 = \<lparr>number = 0, title = [], baseRefName = ''main'', headRefName = [], headRefOid = [],
          body = None, author_login = [], labels = [], isDraft = False, node_id = []\<rparr>"

definition up42 :: pr where
  "up42 = pr0\<lparr>number := 42, title := ''Add feature'', headRefName := ''feature-x'',
              headRefOid := ''def456'', body := Some ''Details'', author_login := ''alice'',
              labels := [Label ''bug'']\<rparr>"

definition fk42 :: pr where
  "fk42 = pr0\<lparr>number := 9, title := ''Add feature'', headRefName := ''feature-x'',
              headRefOid := ''def456'', body := Some (build_pr_body 42 ''alice'' ''Details''),
              labels := [Label ''bug''], node_id := ''PR_9''\<rparr>"

definition up43 :: pr where
  "up43 = pr0\<lparr>number := 43, title := ''Fix typo'', headRefName := ''fix-y'',
              headRefOid := ''aaa111'', author_login := ''bob''\<rparr>"

definition fk43 :: pr where
  "fk43 = pr0\<lparr>number := 10, title := ''Fix typo'', headRefName := ''fix-y'',
              headRefOid := ''aaa111'', body := Some (build_pr_body 43 ''bob'' []),
              node_id := ''PR_10''\<rparr>"

definition fk_old :: pr where
  "fk_old = pr0\<lparr>number := 7, title := ''Gone'', headRefName := ''old-branch'',
              headRefOid := ''0ld'', node_id := ''PR_7''\<rparr>"

definition colliding_prs :: "pr list" where
  "colliding_prs =
     [pr0\<lparr>number := 1, headRefName := ''patch-1-2''\<rparr>,
      pr0\<lparr>number := 2, headRefName := ''patch-1''\<rparr>,
      pr0\<lparr>number := 3, headRefName := ''patch-1''\<rparr>]"

text \<open>Three worlds: every command succeeds; only closing fails; every command fails.\<close>

definition all_ok :: world where
  "all_ok tr c = \<lparr>exit_ok = True, stdout = []\<rparr>"

definition close_fails :: world where
  "close_fails tr c = \<lparr>exit_ok = \<not> is_close c, stdout = []\<rparr>"

definition all_fail :: world where
  "all_fail tr c = \<lparr>exit_ok = False, stdout = []\<rparr>"

section \<open>Auxiliary facts\<close>

lemmas run_defs = run_cmd_def run_cmd_nocheck_def run_gh_def run_gh_nocheck_def
lemmas str_eval = str_int_def str_nat.simps digit_char_def
lemmas ex_defs = pr0_def up42_def fk42_def up43_def fk43_def fk_old_def

lemma count_is_length:
  "sum_list (map (\<lambda>q. 1::nat) xs) = length xs"
  "sum_list (map (\<lambda>q. Suc 0) xs) = length xs"
  by (induction xs) simp_all

subsection \<open>What each function adds to the trace\<close>



lemma close_stale_loop_eq:
  "close_stale_loop ex ub fp n tr =
     (n + length (filter (\<lambda>(b, p). b \<notin> ub) fp),
      tr @ map (\<lambda>(b, p). GhPrClose (number p)) (filter (\<lambda>(b, p). b \<notin> ub) fp))"
  by (induction fp arbitrary: n tr) (auto simp: run_defs)

subsection \<open>Only the sweep closes fork PRs\<close>

lemma close_filter_snoc [simp]:
  "\<not> is_close c \<Longrightarrow> filter is_close (tr @ [c]) = filter is_close tr"
  by simp





lemma tally_branches [simp]: "upstream_branches (tally r st) = upstream_branches st"
  by (simp add: tally_def)



lemma is_close_map [simp]:
  "filter is_close (map (\<lambda>(b, p). GhPrClose (number p)) xs) = map (\<lambda>(b, p). GhPrClose (number p)) xs"
  by (induction xs) auto

subsection \<open>A PR that is in sync\<close>

lemma in_sync_unchanged:
  assumes "map_of fork_prs bn = Some e" and "in_sync p e"
  shows "create_or_update_pr ex p bn fork_prs tr = (''unchanged'', tr)"
  using assms by (simp add: create_or_update_pr_def metadata_changed_def in_sync_def Let_def)

lemma process_prs_in_sync:
  assumes "\<forall>p \<in> set ps. \<exists>e. map_of fork_prs (get_branch_name p all_prs) = Some e \<and> in_sync p e"
  shows "process_prs ex all_prs fork_prs ps st tr =
           (st\<lparr>upstream_branches := upstream_branches st \<union> (\<lambda>p. get_branch_name p all_prs) ` set ps,
               unchanged := unchanged st + length ps\<rparr>, tr)"
  using assms
proof (induction ps arbitrary: st)
  case Nil
  show ?case by simp
next
  case (Cons p ps)
  from Cons.prems obtain e where
    e: "map_of fork_prs (get_branch_name p all_prs) = Some e" "in_sync p e"
    by auto
  have step: "create_or_update_pr ex p (get_branch_name p all_prs) fork_prs tr = (''unchanged'', tr)"
    using e by (rule in_sync_unchanged)
  have rest: "\<forall>p \<in> set ps. \<exists>e. map_of fork_prs (get_branch_name p all_prs) = Some e \<and> in_sync p e"
    using Cons.prems by simp
  show ?case
    by (simp add: step Let_def tally_def Cons.IH [OF rest] insert_commute Un_commute)
qed

subsection \<open>Worlds that differ only on close commands\<close>

lemma ensure_base_agree:
  assumes "\<And>h c. \<not> is_close c \<Longrightarrow> ex1 h c = ex2 h c"
  shows "ensure_base_branch_exists ex1 b tr = ensure_base_branch_exists ex2 b tr"
  by (simp add: ensure_base_branch_exists_def branch_exists_on_origin_def run_defs assms
        Let_def split: bool.splits)

lemma update_metadata_agree:
  assumes "\<And>h c. \<not> is_close c \<Longrightarrow> ex1 h c = ex2 h c"
  shows "update_pr_metadata ex1 n t b U F d fd nid tr = update_pr_metadata ex2 n t b U F d fd nid tr"
  by (simp add: update_pr_metadata_def sync_labels_def mark_pr_ready_def convert_pr_to_draft_def
        run_defs assms Let_def)

lemma create_or_update_agree:
  assumes "\<And>h c. \<not> is_close c \<Longrightarrow> ex1 h c = ex2 h c"
  shows "create_or_update_pr ex1 p bn fork_prs tr = create_or_update_pr ex2 p bn fork_prs tr"
  by (simp add: create_or_update_pr_def ensure_base_agree [OF assms]
        update_metadata_agree [OF assms] run_defs assms Let_def
      split: option.splits prod.splits bool.splits)

lemma process_prs_agree:
  assumes "\<And>h c. \<not> is_close c \<Longrightarrow> ex1 h c = ex2 h c"
  shows "process_prs ex1 all_prs fork_prs ps st tr = process_prs ex2 all_prs fork_prs ps st tr"
proof (induction ps arbitrary: st tr)
  case Nil
  show ?case by simp
next
  case (Cons p ps)
  show ?case
    by (simp add: Let_def create_or_update_agree [OF assms] Cons.IH split: prod.splits)
qed

subsection \<open>The template is longer than the body it wraps\<close>


section \<open>The claims\<close>

text \<open>
  C1 (idempotence). Suppose every upstream PR has, under its computed branch name, a fork
  PR with the same head commit, the same title, the expected mirror body, the same set of
  labels and the same draft flag, and every key of the fork dictionary is a computed
  branch name. Then a run starts no command at all (the trace is returned as it was: no
  create, no branch update, no metadata update, no close), every upstream PR is counted
  as unchanged, and each per-PR step returns \<open>unchanged\<close>.
\<close>

theorem idempotence:
  assumes mirrored: "\<forall>p \<in> set upstream_prs.
            \<exists>e. map_of fork_prs (get_branch_name p upstream_prs) = Some e
               \<and> headRefOid e = headRefOid p \<and> title e = title p
               \<and> body e = Some (build_pr_body (number p) (author_login p) (body_or_empty p))
               \<and> set (get_label_names e) = set (get_label_names p)
               \<and> isDraft e = isDraft p"
    and no_stale: "\<forall>(b, e) \<in> set fork_prs.
            b \<in> (\<lambda>p. get_branch_name p upstream_prs) ` set upstream_prs"
  shows "sync_run ex upstream_prs fork_prs tr =
           (\<lparr>upstream_branches = (\<lambda>p. get_branch_name p upstream_prs) ` set upstream_prs,
             created = 0, updated = 0, unchanged = length upstream_prs, failed = 0,
             closed = 0\<rparr>, tr)
         \<and> (\<forall>p \<in> set upstream_prs.
              create_or_update_pr ex p (get_branch_name p upstream_prs) fork_prs tr
                = (''unchanged'', tr))"
proof -
  have m: "\<forall>p \<in> set upstream_prs.
            \<exists>e. map_of fork_prs (get_branch_name p upstream_prs) = Some e \<and> in_sync p e"
    using mirrored by (simp add: in_sync_def)
  then have ms: "\<forall>p \<in> set (sort_key number upstream_prs).
            \<exists>e. map_of fork_prs (get_branch_name p upstream_prs) = Some e \<and> in_sync p e"
    by simp
  have none: "filter (\<lambda>(b, p). b \<notin> (\<lambda>p. get_branch_name p upstream_prs) ` set upstream_prs) fork_prs = []"
    using no_stale by (auto simp: filter_empty_conv)
  have run: "sync_run ex upstream_prs fork_prs tr =
           (\<lparr>upstream_branches = (\<lambda>p. get_branch_name p upstream_prs) ` set upstream_prs,
             created = 0, updated = 0, unchanged = length upstream_prs, failed = 0,
             closed = 0\<rparr>, tr)"
    by (simp add: sync_run_def process_prs_in_sync [OF ms] close_stale_prs_def
          close_stale_loop_eq none)
  have each: "\<forall>p \<in> set upstream_prs.
              create_or_update_pr ex p (get_branch_name p upstream_prs) fork_prs tr
                = (''unchanged'', tr)"
    using m in_sync_unchanged by blast
  from run each show ?thesis by simp
qed

text \<open>
  The hypotheses of C1 at two mirrored PRs, listed out of order, in the world where every
  command would fail: no command is started.
\<close>

theorem idempotence_witness:
  "sync_run all_fail [up43, up42] [(''feature-x'', fk42), (''fix-y'', fk43)] []
     = (\<lparr>upstream_branches = {''fix-y'', ''feature-x''}, created = 0, updated = 0,
          unchanged = 2, failed = 0, closed = 0\<rparr>, [])"
  using idempotence [of "[up43, up42]" "[(''feature-x'', fk42), (''fix-y'', fk43)]" all_fail "[]"]
  by (simp add: ex_defs get_branch_name_def body_or_empty_def get_label_names_def)

text \<open>
  C2 (uniqueness of branch names), evaluated where it breaks. PR 1 has the unique head
  \<open>patch-1-2\<close> and keeps it; PRs 2 and 3 share the head \<open>patch-1\<close>, so PR 2 becomes
  \<open>patch-1-2\<close> as well: the PR numbers are distinct and the branch names are not.
\<close>

theorem branch_names_collide:
  "distinct (map number colliding_prs)
   \<and> map (\<lambda>p. get_branch_name p colliding_prs) colliding_prs
       = [''patch-1-2'', ''patch-1-2'', ''patch-1-3'']
   \<and> \<not> distinct (map (\<lambda>p. get_branch_name p colliding_prs) colliding_prs)"
  by (simp add: colliding_prs_def pr0_def get_branch_name_def str_eval)

text \<open>
  C3 (disambiguation formula). For a PR of the listing: if more than one PR has its head
  branch name, its branch name is the head name, a hyphen and its number; if exactly one
  has, the branch name is the head name unchanged.
\<close>

theorem branch_disambiguation:
  assumes "p \<in> set all_prs"
  shows "(1 < length (filter (\<lambda>q. headRefName q = headRefName p) all_prs)
            \<longrightarrow> get_branch_name p all_prs = headRefName p @ ''-'' @ str_int (number p))
       \<and> (length (filter (\<lambda>q. headRefName q = headRefName p) all_prs) = 1
            \<longrightarrow> get_branch_name p all_prs = headRefName p)"
  by (simp add: get_branch_name_def count_is_length Let_def)

text \<open>
  Scenario 2 of the specification and its unique-name counterpart.
\<close>

theorem branch_disambiguation_witness:
  "get_branch_name (pr0\<lparr>number := 42, headRefName := ''feature-x''\<rparr>)
     [pr0\<lparr>number := 42, headRefName := ''feature-x''\<rparr>,
      pr0\<lparr>number := 43, headRefName := ''feature-x''\<rparr>] = ''feature-x-42''
   \<and> get_branch_name (pr0\<lparr>number := 42, headRefName := ''feature-x''\<rparr>)
     [pr0\<lparr>number := 42, headRefName := ''feature-x''\<rparr>,
      pr0\<lparr>number := 43, headRefName := ''feature-y''\<rparr>] = ''feature-x''"
  using branch_disambiguation [of "pr0\<lparr>number := 42, headRefName := ''feature-x''\<rparr>"
      "[pr0\<lparr>number := 42, headRefName := ''feature-x''\<rparr>,
        pr0\<lparr>number := 43, headRefName := ''feature-x''\<rparr>]"]
    branch_disambiguation [of "pr0\<lparr>number := 42, headRefName := ''feature-x''\<rparr>"
      "[pr0\<lparr>number := 42, headRefName := ''feature-x''\<rparr>,
        pr0\<lparr>number := 43, headRefName := ''feature-y''\<rparr>]"]
  by (simp add: pr0_def str_eval)



text \<open>
  C5 as stated (a failed close counts as a failure of the run) does not hold: with one
  stale fork PR whose close command fails, the close is attempted, \<open>failed\<close> stays 0,
  \<open>sync_prs\<close> returns \<open>True\<close> and the exit status is 0.
\<close>

theorem sweep_failure_counterexample:
  "\<not> exit_ok (close_fails [] (GhPrClose 7))
   \<and> snd (sync_run close_fails [] [(''old-branch'', fk_old)] []) = [GhPrClose 7]
   \<and> failed (fst (sync_run close_fails [] [(''old-branch'', fk_old)] [])) = 0
   \<and> sync_prs close_fails [] [(''old-branch'', fk_old)] []
   \<and> main_exit close_fails [] [(''old-branch'', fk_old)] [] = 0"
  by (simp add: ex_defs close_fails_def main_exit_def sync_prs_def sync_run_def
        close_stale_prs_def run_defs)

text \<open>
  C5, amended. The failed tally, the flag \<open>sync_prs\<close> returns and the exit status are
  decided by the per-PR loop alone: two worlds that answer every command other than a
  close alike give the same tally, flag and exit status, whatever the closes answer.
\<close>

theorem sweep_failures_not_counted:
  assumes "\<And>h c. \<not> is_close c \<Longrightarrow> ex1 h c = ex2 h c"
  shows "failed (fst (sync_run ex1 upstream_prs fork_prs tr))
           = failed (fst (sync_run ex2 upstream_prs fork_prs tr))
       \<and> sync_prs ex1 upstream_prs fork_prs tr = sync_prs ex2 upstream_prs fork_prs tr
       \<and> main_exit ex1 upstream_prs fork_prs tr = main_exit ex2 upstream_prs fork_prs tr"
  by (simp add: main_exit_def sync_prs_def sync_run_def process_prs_agree [OF assms]
        close_stale_prs_def close_stale_loop_eq)

text \<open>
  The world where all succeeds and the one where only closing fails, on a run that creates
  one PR and closes another.
\<close>

theorem sweep_failures_not_counted_witness:
  "exit_ok (all_ok [] (GhPrClose 7)) \<and> \<not> exit_ok (close_fails [] (GhPrClose 7))
   \<and> failed (fst (sync_run all_ok [up42] [(''old-branch'', fk_old)] []))
     = failed (fst (sync_run close_fails [up42] [(''old-branch'', fk_old)] []))
   \<and> sync_prs all_ok [up42] [(''old-branch'', fk_old)] []
     = sync_prs close_fails [up42] [(''old-branch'', fk_old)] []"
  using sweep_failures_not_counted [of all_ok close_fails "[up42]" "[(''old-branch'', fk_old)]" "[]"]
  by (simp add: all_ok_def close_fails_def)

text \<open>
  C6 (a failed metadata update is tallied as failed), evaluated where it breaks. The
  fork PR differs from upstream in its title only and the edit command fails:
  \<open>update_pr_metadata\<close> returns \<open>False\<close>, \<open>create_or_update_pr\<close> drops that value and
  returns \<open>updated\<close>, and the run ends with \<open>updated = 1\<close>, \<open>failed = 0\<close>.
\<close>

theorem metadata_failure_reported_updated:
  "headRefOid (fk42\<lparr>title := ''Old title''\<rparr>) = headRefOid up42
   \<and> metadata_changed up42 (fk42\<lparr>title := ''Old title''\<rparr>)
   \<and> update_pr_metadata all_fail 9 ''Add feature'' (build_pr_body 42 ''alice'' ''Details'')
         [''bug''] [''bug''] False False ''PR_9'' []
       = (False, [GhPrEdit 9 ''Add feature'' (build_pr_body 42 ''alice'' ''Details'')])
   \<and> create_or_update_pr all_fail up42 ''feature-x''
         [(''feature-x'', fk42\<lparr>title := ''Old title''\<rparr>)] []
       = (''updated'', [GhPrEdit 9 ''Add feature'' (build_pr_body 42 ''alice'' ''Details'')])
   \<and> updated (fst (sync_run all_fail [up42] [(''feature-x'', fk42\<lparr>title := ''Old title''\<rparr>)] [])) = 1
   \<and> failed (fst (sync_run all_fail [up42] [(''feature-x'', fk42\<lparr>title := ''Old title''\<rparr>)] [])) = 0
   \<and> sync_prs all_fail [up42] [(''feature-x'', fk42\<lparr>title := ''Old title''\<rparr>)] []"
  by (simp add: ex_defs all_fail_def metadata_changed_def body_or_empty_def get_label_names_def
        create_or_update_pr_def update_pr_metadata_def run_defs
        sync_prs_def sync_run_def get_branch_name_def tally_def close_stale_prs_def)

text \<open>
  The same run read off the evaluation above: the failed edit is the only command started
  and the step still answers \<open>updated\<close>.
\<close>

theorem metadata_failure_reported_updated_witness:
  "fst (create_or_update_pr all_fail up42 ''feature-x''
          [(''feature-x'', fk42\<lparr>title := ''Old title''\<rparr>)] []) = ''updated''
   \<and> length (snd (create_or_update_pr all_fail up42 ''feature-x''
          [(''feature-x'', fk42\<lparr>title := ''Old title''\<rparr>)] [])) = 1"
  using metadata_failure_reported_updated by simp

text \<open>
  C7 (label delta). The labels to add are upstream minus fork, the labels to remove are
  fork minus upstream, adding the first to the fork set and removing the second gives the
  upstream set, and \<open>sync_labels\<close> starts exactly one add command and one remove command
  with these sets, each only when its set is not empty.
\<close>

theorem label_delta:
  "to_add U F = set U - set F
   \<and> to_remove U F = set F - set U
   \<and> (set F \<union> to_add U F) - to_remove U F = set U
   \<and> sync_labels ex n U F tr =
       tr @ (if to_add U F = {} then [] else [GhAddLabel n (to_add U F)])
          @ (if to_remove U F = {} then [] else [GhRemoveLabel n (to_remove U F)])"
  by (auto simp: to_add_def to_remove_def sync_labels_def run_gh_nocheck_def run_cmd_nocheck_def)

text \<open>
  Upstream \<open>bug, ui\<close> against fork \<open>ui, stale\<close>.
\<close>

theorem label_delta_witness:
  "to_add [''bug'', ''ui''] [''ui'', ''stale''] = {''bug''}
   \<and> to_remove [''bug'', ''ui''] [''ui'', ''stale''] = {''stale''}
   \<and> sync_labels all_ok 5 [''bug'', ''ui''] [''ui'', ''stale''] [] =
        [GhAddLabel 5 {''bug''}, GhRemoveLabel 5 {''stale''}]"
  using label_delta [of "[''bug'', ''ui'']" "[''ui'', ''stale'']" all_ok 5 "[]"]
  by auto






text \<open>
  C10 (null body). A null upstream body is read as the empty string: the expected body
  is the template ending with the separator and a blank line, and the metadata
  comparison and the whole per-PR step are those of the PR with an empty body.
\<close>

theorem null_body_as_empty:
  "body_or_empty (p\<lparr>body := None\<rparr>) = []
   \<and> build_pr_body (number p) (author_login p) (body_or_empty (p\<lparr>body := None\<rparr>)) =
       ''**Mirror of [facebook/react#'' @ str_int (number p)
         @ ''](https://github.com/facebook/react/pull/'' @ str_int (number p) @ '')**'' @ [nl]
         @ ''**Original author:** '' @ author_login p @ '' '' @ [nl, nl] @ ''---'' @ [nl, nl]
   \<and> metadata_changed (p\<lparr>body := None\<rparr>) e = metadata_changed (p\<lparr>body := Some []\<rparr>) e
   \<and> create_or_update_pr ex (p\<lparr>body := None\<rparr>) bn fork_prs tr
       = create_or_update_pr ex (p\<lparr>body := Some []\<rparr>) bn fork_prs tr"
proof -
  have b: "body_or_empty (p\<lparr>body := None\<rparr>) = []" "body_or_empty (p\<lparr>body := Some []\<rparr>) = []"
    by (simp_all add: body_or_empty_def)
  have t: "build_pr_body (number p) (author_login p) [] =
       ''**Mirror of [facebook/react#'' @ str_int (number p)
         @ ''](https://github.com/facebook/react/pull/'' @ str_int (number p) @ '')**'' @ [nl]
         @ ''**Original author:** '' @ author_login p @ '' '' @ [nl, nl] @ ''---'' @ [nl, nl]"
    by (simp add: build_pr_body_def UPSTREAM_REPO_def)
  have m: "metadata_changed (p\<lparr>body := None\<rparr>) x = metadata_changed (p\<lparr>body := Some []\<rparr>) x"
    for x
    by (simp add: metadata_changed_def b get_label_names_def)
  have c: "create_or_update_pr ex (p\<lparr>body := None\<rparr>) bn fork_prs tr
       = create_or_update_pr ex (p\<lparr>body := Some []\<rparr>) bn fork_prs tr"
    by (cases "map_of fork_prs bn")
      (simp_all add: create_or_update_pr_def b m get_label_names_def Let_def
         split: prod.splits sum.splits bool.splits)
  from b t m [of e] c show ?thesis by simp
qed

text \<open>
  PR 43 has a null body and its mirror holds the bare template.
\<close>

theorem null_body_as_empty_witness:
  "create_or_update_pr all_ok up43 ''fix-y'' [(''fix-y'', fk43)] [] = (''unchanged'', [])
   \<and> create_or_update_pr all_ok (up43\<lparr>body := Some []\<rparr>) ''fix-y'' [(''fix-y'', fk43)] []
       = (''unchanged'', [])"
  using null_body_as_empty [of up43 fk43 all_ok "''fix-y''" "[(''fix-y'', fk43)]" "[]"]
  by (simp add: ex_defs create_or_update_pr_def metadata_changed_def body_or_empty_def
        get_label_names_def)

end
